theory Spec2Isabelle
  imports Complex_Main "HOL-Library.AList"
begin

section \<open>Numbers of the dashboard\<close>

text \<open>
  The dashboard computes with JavaScript numbers. Amounts that are stored in the
  snapshot are finite (they come from \<^verbatim>\<open>parseFloat\<close> of a number field and survive
  \<^verbatim>\<open>JSON.stringify\<close>), so they are modelled as reals: the arithmetic on finite values
  is taken to be exact, rounding of binary floating point is not modelled, and there is
  one zero (\<open>+0\<close>). A division can leave the finite numbers: \<^verbatim>\<open>x / 0\<close> is
  \<^verbatim>\<open>Infinity\<close>, \<^verbatim>\<open>-Infinity\<close> or \<^verbatim>\<open>NaN\<close>, never an exception. The results
  of the expressions that divide are therefore values of \<open>jsnum\<close>, with the
  operations of ECMAScript on the special values.
\<close>

datatype jsnum = Fin real | PInf | NInf | NaN

fun js_div :: "jsnum \<Rightarrow> jsnum \<Rightarrow> jsnum" where
  "js_div NaN _ = NaN"
| "js_div _ NaN = NaN"
| "js_div (Fin a) (Fin b) =
     (if b = 0 then (if a = 0 then NaN else if 0 < a then PInf else NInf)
      else Fin (a / b))"
| "js_div (Fin a) PInf = Fin 0"
| "js_div (Fin a) NInf = Fin 0"
| "js_div PInf (Fin b) = (if 0 \<le> b then PInf else NInf)"
| "js_div NInf (Fin b) = (if 0 \<le> b then NInf else PInf)"
| "js_div PInf PInf = NaN"
| "js_div PInf NInf = NaN"
| "js_div NInf PInf = NaN"
| "js_div NInf NInf = NaN"

fun js_mul :: "jsnum \<Rightarrow> jsnum \<Rightarrow> jsnum" where
  "js_mul NaN _ = NaN"
| "js_mul _ NaN = NaN"
| "js_mul (Fin a) (Fin b) = Fin (a * b)"
| "js_mul (Fin a) PInf = (if a = 0 then NaN else if 0 < a then PInf else NInf)"
| "js_mul (Fin a) NInf = (if a = 0 then NaN else if 0 < a then NInf else PInf)"
| "js_mul PInf (Fin b) = (if b = 0 then NaN else if 0 < b then PInf else NInf)"
| "js_mul NInf (Fin b) = (if b = 0 then NaN else if 0 < b then NInf else PInf)"
| "js_mul PInf PInf = PInf"
| "js_mul PInf NInf = NInf"
| "js_mul NInf PInf = NInf"
| "js_mul NInf NInf = PInf"

text \<open>\<^verbatim>\<open>Math.min\<close> of two arguments: \<^verbatim>\<open>NaN\<close> if either is \<^verbatim>\<open>NaN\<close>.\<close>

fun js_min :: "jsnum \<Rightarrow> jsnum \<Rightarrow> jsnum" where
  "js_min NaN _ = NaN"
| "js_min _ NaN = NaN"
| "js_min NInf _ = NInf"
| "js_min _ NInf = NInf"
| "js_min PInf y = y"
| "js_min x PInf = x"
| "js_min (Fin a) (Fin b) = Fin (min a b)"


section \<open>The calendar of the Date object\<close>

text \<open>
  The dashboard reads the clock with \<^verbatim>\<open>new Date()\<close> and works on local calendar
  fields (\<^verbatim>\<open>getDay\<close>, \<^verbatim>\<open>getDate\<close>, \<^verbatim>\<open>setDate\<close>, \<^verbatim>\<open>setHours\<close>). The
  Date object is modelled by its time value, an integer number of milliseconds since
  1 January 1970 UTC, with the day and calendar functions of ECMAScript (section
  "Date Objects": \<open>Day\<close>, \<open>TimeWithinDay\<close>, \<open>DayFromYear\<close>,
  \<open>YearFromTime\<close>, \<open>MonthFromTime\<close>, \<open>DateFromTime\<close>, \<open>WeekDay\<close>,
  \<open>MakeDay\<close>, \<open>MakeDate\<close>). Local time is UTC plus a fixed offset \<open>tza\<close>
  (milliseconds): daylight-saving changes of the offset are not modelled, and time values
  are unbounded integers (the range check \<open>TimeClip\<close> is not modelled).
\<close>

type_synonym Date = int

definition msPerDay :: int where
  "msPerDay = 86400000"

definition Day :: "int \<Rightarrow> int" where
  "Day t = t div msPerDay"

definition TimeWithinDay :: "int \<Rightarrow> int" where
  "TimeWithinDay t = t mod msPerDay"

definition InLeapYear :: "int \<Rightarrow> bool" where
  "InLeapYear y = (y mod 4 = 0 \<and> (y mod 100 \<noteq> 0 \<or> y mod 400 = 0))"

definition DaysInYear :: "int \<Rightarrow> int" where
  "DaysInYear y = (if InLeapYear y then 366 else 365)"

definition DayFromYear :: "int \<Rightarrow> int" where
  "DayFromYear y =
     365 * (y - 1970) + (y - 1969) div 4 - (y - 1901) div 100 + (y - 1601) div 400"

text \<open>
  ECMAScript specifies the year of a day as the largest \<open>y\<close> with
  \<open>DayFromYear y \<le> d\<close>. It is computed here from the mean length of the Gregorian
  year (146097 days in 400 years), corrected by at most one year; lemmas
  \<open>YearFromDay_bounds\<close> and \<open>YearFromDay_unique\<close> show that this is the year
  of the specification.
\<close>

definition YearFromDay :: "int \<Rightarrow> int" where
  "YearFromDay d =
     (let y = 1970 + (400 * d) div 146097 in
      if d < DayFromYear y then y - 1
      else if DayFromYear (y + 1) \<le> d then y + 1
      else y)"

definition DayWithinYear :: "int \<Rightarrow> int" where
  "DayWithinYear d = d - DayFromYear (YearFromDay d)"

definition MonthFromDay :: "int \<Rightarrow> int" where
  "MonthFromDay d =
     (let l = (if InLeapYear (YearFromDay d) then 1 else 0); w = DayWithinYear d in
      if w < 31 then 0 else if w < 59 + l then 1 else if w < 90 + l then 2
      else if w < 120 + l then 3 else if w < 151 + l then 4 else if w < 181 + l then 5
      else if w < 212 + l then 6 else if w < 243 + l then 7 else if w < 273 + l then 8
      else if w < 304 + l then 9 else if w < 334 + l then 10 else 11)"

text \<open>The day within the year on which month \<open>m\<close> (0 to 11) of year \<open>y\<close> begins.\<close>

definition monthStart :: "int \<Rightarrow> int \<Rightarrow> int" where
  "monthStart y m =
     (let l = (if InLeapYear y then 1 else 0) in
      if m = 0 then 0 else if m = 1 then 31 else if m = 2 then 59 + l
      else if m = 3 then 90 + l else if m = 4 then 120 + l else if m = 5 then 151 + l
      else if m = 6 then 181 + l else if m = 7 then 212 + l else if m = 8 then 243 + l
      else if m = 9 then 273 + l else if m = 10 then 304 + l else 334 + l)"

definition DaysInMonth :: "int \<Rightarrow> int \<Rightarrow> int" where
  "DaysInMonth y m =
     (if m = 1 then (if InLeapYear y then 29 else 28)
      else if m = 3 \<or> m = 5 \<or> m = 8 \<or> m = 10 then 30 else 31)"

definition DateFromDay :: "int \<Rightarrow> int" where
  "DateFromDay d = DayWithinYear d - monthStart (YearFromDay d) (MonthFromDay d) + 1"

definition YearFromTime :: "int \<Rightarrow> int" where
  "YearFromTime t = YearFromDay (Day t)"

definition MonthFromTime :: "int \<Rightarrow> int" where
  "MonthFromTime t = MonthFromDay (Day t)"

definition DateFromTime :: "int \<Rightarrow> int" where
  "DateFromTime t = DateFromDay (Day t)"

text \<open>Day 0 (1 January 1970) is a Thursday; 0 is Sunday, 1 is Monday.\<close>

definition WeekDay :: "int \<Rightarrow> int" where
  "WeekDay t = (Day t + 4) mod 7"

definition MakeTime :: "int \<Rightarrow> int \<Rightarrow> int \<Rightarrow> int \<Rightarrow> int" where
  "MakeTime hour minute sec ms = hour * 3600000 + minute * 60000 + sec * 1000 + ms"

text \<open>
  \<open>MakeDay\<close> accepts a month outside 0 to 11 and a day of the month outside the month:
  the month carries into the year, and the days are counted from the first of the month.
\<close>

definition MakeDay :: "int \<Rightarrow> int \<Rightarrow> int \<Rightarrow> int" where
  "MakeDay year month dt =
     (let ym = year + month div 12; mn = month mod 12
      in DayFromYear ym + monthStart ym mn + dt - 1)"

definition MakeDate :: "int \<Rightarrow> int \<Rightarrow> int" where
  "MakeDate day time = day * msPerDay + time"

definition LocalTime :: "int \<Rightarrow> int \<Rightarrow> int" where
  "LocalTime tza t = t + tza"

definition UTC :: "int \<Rightarrow> int \<Rightarrow> int" where
  "UTC tza t = t - tza"

subsection \<open>The methods of Date that the dashboard calls\<close>

definition getDay :: "int \<Rightarrow> Date \<Rightarrow> int" where
  "getDay tza d = WeekDay (LocalTime tza d)"

definition getDate :: "int \<Rightarrow> Date \<Rightarrow> int" where
  "getDate tza d = DateFromTime (LocalTime tza d)"

definition getMonth :: "int \<Rightarrow> Date \<Rightarrow> int" where
  "getMonth tza d = MonthFromTime (LocalTime tza d)"

definition getFullYear :: "int \<Rightarrow> Date \<Rightarrow> int" where
  "getFullYear tza d = YearFromTime (LocalTime tza d)"



text \<open>
  \<^verbatim>\<open>new Date(year, month, dt)\<close>. The constructor reads a year from 0 to 99 as
  1900 + year.
\<close>

definition newDate :: "int \<Rightarrow> int \<Rightarrow> int \<Rightarrow> int \<Rightarrow> Date" where
  "newDate tza year month dt =
     (let yr = (if 0 \<le> year \<and> year \<le> 99 then 1900 + year else year)
      in UTC tza (MakeDate (MakeDay yr month dt) (MakeTime 0 0 0 0)))"

section \<open>Period calculation\<close>

datatype goalType = Weekly | Monthly


text \<open>
  \<^verbatim>\<open>
  let daysLeft = 1;
  if (data.user.goalType === 'weekly') {
      const day = new Date().getDay();
      daysLeft = 7 - (day === 0 ? 7 : day) + 1;
  } else {
      const nowObj = new Date();
      const lastDay = new Date(nowObj.getFullYear(), nowObj.getMonth() + 1, 0);
      daysLeft = lastDay.getDate() - nowObj.getDate() + 1;
  }
  \<close>
  \<open>now\<close> is the clock reading of \<^verbatim>\<open>new Date()\<close>.
\<close>

definition daysLeft :: "int \<Rightarrow> Date \<Rightarrow> goalType \<Rightarrow> int" where
  "daysLeft tza now type =
     (if type = Weekly then
        (let day = getDay tza now in 7 - (if day = 0 then 7 else day) + 1)
      else
        (let nowObj = now;
             lastDay = newDate tza (getFullYear tza nowObj) (getMonth tza nowObj + 1) 0
         in getDate tza lastDay - getDate tza nowObj + 1))"

text \<open>The ISO weekday of a local time: Monday is 1, Sunday is 7.\<close>

definition isoWeekday :: "int \<Rightarrow> int" where
  "isoWeekday t = (Day t + 3) mod 7 + 1"

section \<open>The data of the dashboard\<close>

text \<open>
  The interfaces \<^verbatim>\<open>Transaction\<close>, \<^verbatim>\<open>Expense\<close>, \<^verbatim>\<open>UserData\<close>,
  \<^verbatim>\<open>AppData\<close> and \<^verbatim>\<open>DaySummary\<close>. Record fields are global names in
  Isabelle, so the fields of a transaction carry the prefix \<open>tx_\<close> and those of an
  expense the prefix \<open>exp_\<close>. The \<^verbatim>\<open>date\<close> of a transaction is the ISO string
  that \<^verbatim>\<open>new Date().toISOString()\<close> wrote; it is modelled by the instant it denotes
  (milliseconds since the epoch). The strings have one fixed width for the years 0000
  to 9999, so comparing two of them as strings, as the dashboard does, compares the
  instants.
\<close>

datatype payType = Cash | Card

datatype category = Service | Tip

datatype frequency = FreqDaily | FreqWeekly

record Transaction =
  tx_id :: int
  tx_amount :: real
  tx_type :: payType
  tx_category :: "category option"
  tx_date :: int

record Expense =
  exp_id :: int
  exp_name :: string
  exp_amount :: real
  exp_frequency :: frequency

record UserData =
  name :: string
  goalType :: goalType
  goalAmount :: real
  simulatorValue :: int

record AppData =
  user :: "UserData option"
  transactions :: "Transaction list"
  expenses :: "Expense list"


section \<open>Today's figures\<close>










section \<open>Goal projection\<close>

text \<open>
  \<^verbatim>\<open>const goalProgress = Math.min(100, (periodTotal / data.user.goalAmount) * 100);\<close>
  The first argument is the period total, the second the goal amount of the user.
\<close>

definition goalProgress :: "real \<Rightarrow> real \<Rightarrow> jsnum" where
  "goalProgress pTotal gAmount =
     js_min (Fin 100) (js_mul (js_div (Fin pTotal) (Fin gAmount)) (Fin 100))"





section \<open>History by calendar day\<close>

text \<open>
  \<^verbatim>\<open>toDateString()\<close> renders the weekday, the month, the day of the month and the
  year of the local date, as in \<^verbatim>\<open>"Mon Nov 02 2026"\<close>, and nothing of the time of
  day. The string is modelled by these four fields.
\<close>

type_synonym dateString = "int \<times> int \<times> int \<times> int"

definition toDateString :: "int \<Rightarrow> Date \<Rightarrow> dateString" where
  "toDateString tza d =
     (let t = LocalTime tza d
      in (WeekDay t, MonthFromTime t, DateFromTime t, YearFromTime t))"


record DaySummary =
  dateStr :: dateString
  dateObj :: Date
  total_d :: real
  count_d :: int

text \<open>
  \<^verbatim>\<open>
  const grouped: Record<string, DaySummary> = {};
  transactions.forEach(t => {
    const d = new Date(t.date);
    const key = d.toDateString();
    if (!grouped[key]) {
      grouped[key] = { dateStr: key, dateObj: d, total: 0, count: 0 };
    }
    grouped[key].total += t.amount;
    grouped[key].count += 1;
  });
  const historyList = Object.values(grouped)
    .sort((a, b) => b.dateObj.getTime() - a.dateObj.getTime());
  \<close>
  The object \<open>grouped\<close> is an association list in the order in which its keys were
  created, which is the order of \<^verbatim>\<open>Object.values\<close>. \<open>groupStep\<close> is the body
  of the \<^verbatim>\<open>forEach\<close>. \<^verbatim>\<open>Array.prototype.sort\<close> is stable and its comparator
  orders by descending time, which is \<open>sort_key\<close> on the negated time.
\<close>

definition groupStep ::
  "int \<Rightarrow> (dateString \<times> DaySummary) list \<Rightarrow> Transaction \<Rightarrow> (dateString \<times> DaySummary) list" where
  "groupStep tza grouped t =
     (let d = tx_date t;
          key = toDateString tza d;
          grouped = (if map_of grouped key = None
                     then grouped @ [(key, \<lparr>dateStr = key, dateObj = d, total_d = 0, count_d = 0\<rparr>)]
                     else grouped);
          grouped = AList.map_entry key (\<lambda>s. s\<lparr>total_d := total_d s + tx_amount t\<rparr>) grouped;
          grouped = AList.map_entry key (\<lambda>s. s\<lparr>count_d := count_d s + 1\<rparr>) grouped
      in grouped)"

definition grouped :: "int \<Rightarrow> Transaction list \<Rightarrow> (dateString \<times> DaySummary) list" where
  "grouped tza txs = foldl (groupStep tza) [] txs"



section \<open>Loading the stored data\<close>

text \<open>
  \<^verbatim>\<open>getInitialData\<close> returns whatever \<^verbatim>\<open>JSON.parse\<close> produced, a value of any
  shape, so its result is a JSON value. An object is the list of its properties.
\<close>

datatype json =
  JNull | JBool bool | JNum real | JStr string | JArr "json list" | JObj "(string \<times> json) list"

text \<open>The literal \<^verbatim>\<open>{ user: null, transactions: [], expenses: [] }\<close>.\<close>

definition emptyData :: json where
  "emptyData = JObj [(''user'', JNull), (''transactions'', JArr []), (''expenses'', JArr [])]"

text \<open>
  Reading a property: \<^verbatim>\<open>null.p\<close> throws a TypeError (\<open>None\<close>); an object gives
  the property or \<^verbatim>\<open>undefined\<close>; a number, string, boolean or array has no
  property called \<^verbatim>\<open>user\<close> or \<^verbatim>\<open>simulatorValue\<close>. \<open>Some None\<close> is
  \<^verbatim>\<open>undefined\<close>.
\<close>

fun getProp :: "json \<Rightarrow> string \<Rightarrow> json option option" where
  "getProp JNull p = None"
| "getProp (JObj kvs) p = Some (map_of kvs p)"
| "getProp _ p = Some None"

fun truthy :: "json \<Rightarrow> bool" where
  "truthy JNull = False"
| "truthy (JBool b) = b"
| "truthy (JNum x) = (x \<noteq> 0)"
| "truthy (JStr s) = (s \<noteq> [])"
| "truthy (JArr _) = True"
| "truthy (JObj _) = True"

text \<open>
  The assignment \<^verbatim>\<open>u.simulatorValue = 0\<close>. The file is a module, hence strict code:
  assigning a property of a number, string or boolean throws a TypeError (\<open>None\<close>). On
  an array the assignment adds a property that is no element of the array; the array is
  returned with its elements.
\<close>

fun setSimulatorValue :: "json \<Rightarrow> json option" where
  "setSimulatorValue (JObj kvs) = Some (JObj (AList.update ''simulatorValue'' (JNum 0) kvs))"
| "setSimulatorValue (JArr xs) = Some (JArr xs)"
| "setSimulatorValue _ = None"

text \<open>
  \<^verbatim>\<open>
  if (parsed.user && typeof parsed.user.simulatorValue === 'undefined') {
    parsed.user.simulatorValue = 0;
  }
  return parsed;
  \<close>
  \<open>None\<close> is an exception, which the surrounding \<^verbatim>\<open>try\<close> catches.
\<close>

definition defaultSimulatorValue :: "json \<Rightarrow> json option" where
  "defaultSimulatorValue parsed =
     (case getProp parsed ''user'' of
        None \<Rightarrow> None
      | Some None \<Rightarrow> Some parsed
      | Some (Some u) \<Rightarrow>
          if truthy u \<and> getProp u ''simulatorValue'' = Some None
          then (case setSimulatorValue u of
                  None \<Rightarrow> None
                | Some u' \<Rightarrow>
                    (case parsed of
                       JObj kvs \<Rightarrow> Some (JObj (AList.update ''user'' u' kvs))
                     | _ \<Rightarrow> Some parsed))
          else Some parsed)"

text \<open>
  \<^verbatim>\<open>
  const getInitialData = (): AppData => {
    if (typeof window === 'undefined') return { user: null, transactions: [], expenses: [] };
    const saved = localStorage.getItem(STORAGE_KEY);
    if (saved) {
      try {
        const parsed = JSON.parse(saved);
        if (parsed.user && typeof parsed.user.simulatorValue === 'undefined') {
          parsed.user.simulatorValue = 0;
        }
        return parsed;
      } catch (e) {
        console.error("Failed to parse data", e);
      }
    }
    return { user: null, transactions: [], expenses: [] };
  };
  \<close>
  \<open>hasWindow\<close> tells whether \<^verbatim>\<open>window\<close> is defined, \<open>saved\<close> is the result of
  \<^verbatim>\<open>localStorage.getItem\<close> (\<open>None\<close> for \<^verbatim>\<open>null\<close>), and \<open>JSON_parse\<close> is the
  parser of the platform, a parameter: \<open>None\<close> when it throws a SyntaxError.
\<close>

definition getInitialData :: "bool \<Rightarrow> (string \<Rightarrow> json option) \<Rightarrow> string option \<Rightarrow> json" where
  "getInitialData hasWindow JSON_parse saved =
     (if \<not> hasWindow then emptyData
      else case saved of
        None \<Rightarrow> emptyData
      | Some s \<Rightarrow>
          if s = [] then emptyData
          else (case JSON_parse s of
                  None \<Rightarrow> emptyData
                | Some parsed \<Rightarrow>
                    (case defaultSimulatorValue parsed of
                       None \<Rightarrow> emptyData
                     | Some r \<Rightarrow> r)))"

text \<open>
  Modelled from the spec: what a well-formed Snapshot is. The specification names the
  aggregate \<open>{Goal or absent, ordered sequence of Transaction, set of Expense}\<close>; the
  stored form is the \<^verbatim>\<open>AppData\<close> object with its three properties, the user being
  \<^verbatim>\<open>null\<close> or an object, the other two arrays of objects.
\<close>

fun isObject :: "json \<Rightarrow> bool" where
  "isObject (JObj _) = True"
| "isObject _ = False"

definition wellFormedSnapshot :: "json \<Rightarrow> bool" where
  "wellFormedSnapshot j =
     (case j of
        JObj kvs \<Rightarrow>
          (case (map_of kvs ''user'', map_of kvs ''transactions'', map_of kvs ''expenses'') of
             (Some u, Some (JArr ts), Some (JArr es)) \<Rightarrow>
               (u = JNull \<or> isObject u) \<and> list_all isObject ts \<and> list_all isObject es
           | _ \<Rightarrow> False)
      | _ \<Rightarrow> False)"

section \<open>Adding a transaction\<close>

text \<open>
  \<^verbatim>\<open>
  const handleTransaction = (amount: number) => {
    const newTx: Transaction = {
      id: Date.now(),
      amount,
      type: modalType,
      category: modalCategory,
      date: new Date().toISOString(),
    };
    setData(prev => ({ ...prev, transactions: [...prev.transactions, newTx] }));
  };
  \<close>
  The two readings of the clock, \<^verbatim>\<open>Date.now()\<close> and \<^verbatim>\<open>new Date()\<close>, are the
  arguments \<open>clockId\<close> and \<open>clockDate\<close>; \<open>modalType\<close> and \<open>modalCategory\<close> are
  the state of the entry dialog. The result is the new state.
\<close>

definition handleTransaction ::
  "int \<Rightarrow> int \<Rightarrow> payType \<Rightarrow> category \<Rightarrow> real \<Rightarrow> AppData \<Rightarrow> AppData" where
  "handleTransaction clockId clockDate modalType modalCategory amount prev =
     (let newTx = \<lparr>tx_id = clockId, tx_amount = amount, tx_type = modalType,
                    tx_category = Some modalCategory, tx_date = clockDate\<rparr>
      in prev\<lparr>transactions := transactions prev @ [newTx]\<rparr>)"

text \<open>
  A run of the entry dialog: each event is one confirmed amount with the two clock
  readings and the dialog state at that moment.
\<close>

record entry =
  e_clockId :: int
  e_clockDate :: int
  e_type :: payType
  e_category :: category
  e_amount :: real

definition addAll :: "AppData \<Rightarrow> entry list \<Rightarrow> AppData" where
  "addAll data es =
     foldl (\<lambda>d e. handleTransaction (e_clockId e) (e_clockDate e) (e_type e) (e_category e)
                     (e_amount e) d) data es"

definition initialAppData :: AppData where
  "initialAppData = \<lparr>user = None, transactions = [], expenses = []\<rparr>"

section \<open>Properties of the calendar\<close>

subsection \<open>Years\<close>

lemma div_bounds:
  fixes x k :: int
  assumes "0 < k"
  shows "k * (x div k) \<le> x" and "x < k * (x div k) + k"
proof -
  have "x = k * (x div k) + x mod k" by simp
  moreover have "0 \<le> x mod k" "x mod k < k" using assms by simp_all
  ultimately show "k * (x div k) \<le> x" and "x < k * (x div k) + k" by linarith+
qed

lemma div_step:
  fixes x k :: int
  assumes "0 < k"
  shows "(x + 1) div k - x div k = (if (x + 1) mod k = 0 then 1 else 0)"
proof -
  define q where "q = x div k"
  define r where "r = x mod k"
  have x: "x = k * q + r" and r: "0 \<le> r" "r < k" using assms by (simp_all add: q_def r_def)
  show ?thesis
  proof (cases "r + 1 = k")
    case True
    then have e: "x + 1 = k * (q + 1) + 0" using x by (simp add: algebra_simps)
    have "(x + 1) div k = q + 1" by (rule int_div_pos_eq[OF e]) (use assms in simp_all)
    moreover have "(x + 1) mod k = 0" by (rule int_mod_pos_eq[OF e]) (use assms in simp_all)
    ultimately show ?thesis by (simp add: q_def)
  next
    case False
    then have r1: "0 \<le> r + 1" "r + 1 < k" using r by linarith+
    have e: "x + 1 = k * q + (r + 1)" using x by simp
    have "(x + 1) div k = q" by (rule int_div_pos_eq[OF e]) (use r1 in simp_all)
    moreover have "(x + 1) mod k = r + 1" by (rule int_mod_pos_eq[OF e]) (use r1 in simp_all)
    ultimately show ?thesis using r by (simp add: q_def)
  qed
qed

lemma mod_shift: "(y - k * c) mod k = (y::int) mod k"
  by (metis mod_mult_self2 diff_add_cancel)

lemma step4: "(y - 1968) div 4 = (y - 1969) div 4 + (if y mod 4 = 0 then 1 else (0::int))"
proof -
  have "(y - 1968) mod 4 = y mod 4" using mod_shift[of y 4 492] by simp
  then show ?thesis using div_step[of 4 "y - 1969"] by simp
qed

lemma step100: "(y - 1900) div 100 = (y - 1901) div 100 + (if y mod 100 = 0 then 1 else (0::int))"
proof -
  have "(y - 1900) mod 100 = y mod 100" using mod_shift[of y 100 19] by simp
  then show ?thesis using div_step[of 100 "y - 1901"] by simp
qed

lemma step400: "(y - 1600) div 400 = (y - 1601) div 400 + (if y mod 400 = 0 then 1 else (0::int))"
proof -
  have "(y - 1600) mod 400 = y mod 400" using mod_shift[of y 400 4] by simp
  then show ?thesis using div_step[of 400 "y - 1601"] by simp
qed

lemma leap_mods:
  fixes y :: int
  shows "y mod 400 = 0 \<Longrightarrow> y mod 100 = 0" "y mod 100 = 0 \<Longrightarrow> y mod 4 = 0"
  using mod_mod_cancel[of 100 400 y] mod_mod_cancel[of 4 100 y] by simp_all

lemma DaysInYear_cases:
  "DaysInYear y = 365 + (if y mod 4 = 0 then 1 else 0) - (if y mod 100 = 0 then 1 else 0)
     + (if y mod 400 = 0 then 1 else 0)"
proof (cases "y mod 400 = 0")
  case True
  then show ?thesis using leap_mods(1)[of y] leap_mods(2)[of y] 
    by (simp only: DaysInYear_def InLeapYear_def) simp
next
  case n400: False
  show ?thesis
  proof (cases "y mod 100 = 0")
    case True
    then show ?thesis using n400 leap_mods(2)[of y]
      by (simp only: DaysInYear_def InLeapYear_def) simp 
  next
    case False
    then show ?thesis using n400 by (simp only: DaysInYear_def InLeapYear_def) simp 
  qed
qed

lemma DayFromYear_Suc: "DayFromYear (y + 1) = DayFromYear y + DaysInYear y"
proof -
  have a: "y + 1 - 1969 = y - 1968" "y + 1 - 1901 = y - 1900" "y + 1 - 1601 = y - 1600"
    by simp_all
  show ?thesis
    unfolding DayFromYear_def DaysInYear_cases a step4 step100 step400
    by (simp only: algebra_simps) 
qed

lemma DayFromYear_bounds:
  "146097 * (y - 1970) - 607 < 400 * DayFromYear y"
  "400 * DayFromYear y < 146097 * (y - 1970) + 593"
proof -
  define a where "a = (y - 1969) div 4"
  define b where "b = (y - 1901) div 100"
  define c where "c = (y - 1601) div 400"
  have A: "4 * a \<le> y - 1969" "y - 1969 < 4 * a + 4"
    unfolding a_def by (rule div_bounds, simp)+
  have B: "100 * b \<le> y - 1901" "y - 1901 < 100 * b + 100"
    unfolding b_def by (rule div_bounds, simp)+
  have C: "400 * c \<le> y - 1601" "y - 1601 < 400 * c + 400"
    unfolding c_def by (rule div_bounds, simp)+
  have D: "DayFromYear y = 365 * (y - 1970) + a - b + c"
    by (simp only: DayFromYear_def a_def b_def c_def)
  show "146097 * (y - 1970) - 607 < 400 * DayFromYear y"
    using A B C unfolding D by (simp add: algebra_simps)
  show "400 * DayFromYear y < 146097 * (y - 1970) + 593"
    using A B C unfolding D by (simp add: algebra_simps)
qed

lemma YearFromDay_bounds:
  "DayFromYear (YearFromDay d) \<le> d" "d < DayFromYear (YearFromDay d + 1)"
proof -
  define q where "q = (400 * d) div 146097"
  define y where "y = 1970 + q"
  have Q: "146097 * q \<le> 400 * d" "400 * d < 146097 * q + 146097"
    unfolding q_def by (rule div_bounds, simp)+
  have lo: "DayFromYear (y - 1) \<le> d"
    using DayFromYear_bounds(2)[of "y - 1"] Q unfolding y_def by (simp add: algebra_simps)
  have hi: "d < DayFromYear (y + 1 + 1)"
    using DayFromYear_bounds(1)[of "y + 1 + 1"] Q unfolding y_def by (simp add: algebra_simps)
  have Y: "YearFromDay d = (if d < DayFromYear y then y - 1
      else if DayFromYear (y + 1) \<le> d then y + 1 else y)"
    by (simp only: YearFromDay_def Let_def y_def q_def)
  have "DayFromYear (YearFromDay d) \<le> d \<and> d < DayFromYear (YearFromDay d + 1)"
  proof (cases "d < DayFromYear y")
    case True
    then show ?thesis using lo Y by simp
  next
    case False
    then show ?thesis using hi Y by (cases "DayFromYear (y + 1) \<le> d") simp_all
  qed
  then show "DayFromYear (YearFromDay d) \<le> d" "d < DayFromYear (YearFromDay d + 1)"
    by simp_all
qed

lemma DayFromYear_add: "DayFromYear y + 365 * int n \<le> DayFromYear (y + int n)"
proof (induction n)
  case 0
  show ?case by simp
next
  case (Suc n)
  have "y + int (Suc n) = (y + int n) + 1" by simp
  then have "DayFromYear (y + int (Suc n)) = DayFromYear (y + int n) + DaysInYear (y + int n)"
    using DayFromYear_Suc[of "y + int n"] by (simp only:)
  moreover have "365 \<le> DaysInYear (y + int n)" by (simp add: DaysInYear_def)
  ultimately show ?case using Suc by simp
qed

lemma DayFromYear_mono: "y1 \<le> y2 \<Longrightarrow> DayFromYear y1 \<le> DayFromYear y2"
  using DayFromYear_add[of y1 "nat (y2 - y1)"] by simp

lemma YearFromDay_unique:
  assumes "DayFromYear y \<le> d" and "d < DayFromYear (y + 1)"
  shows "YearFromDay d = y"
proof (rule ccontr)
  assume ne: "YearFromDay d \<noteq> y"
  note b = YearFromDay_bounds[of d]
  show False
  proof (cases "YearFromDay d < y")
    case True
    then have "DayFromYear (YearFromDay d + 1) \<le> DayFromYear y"
      by (intro DayFromYear_mono) simp
    then show False using b assms by linarith
  next
    case False
    then have "DayFromYear (y + 1) \<le> DayFromYear (YearFromDay d)"
      using ne by (intro DayFromYear_mono) simp
    then show False using b assms by linarith
  qed
qed

subsection \<open>Months and days of the month\<close>

lemma DayWithinYear_range:
  "0 \<le> DayWithinYear d" "DayWithinYear d < DaysInYear (YearFromDay d)"
  using YearFromDay_bounds[of d] DayFromYear_Suc[of "YearFromDay d"]
  by (simp_all add: DayWithinYear_def)

lemma MonthFromDay_range: "0 \<le> MonthFromDay d" "MonthFromDay d \<le> 11"
  by (simp_all add: MonthFromDay_def Let_def)

lemma month_cases:
  fixes m :: int
  assumes "0 \<le> m" "m \<le> 11"
  shows "m = 0 \<or> m = 1 \<or> m = 2 \<or> m = 3 \<or> m = 4 \<or> m = 5 \<or> m = 6 \<or> m = 7 \<or> m = 8
    \<or> m = 9 \<or> m = 10 \<or> m = 11"
  using assms by presburger

lemma DateFromDay_range:
  "1 \<le> DateFromDay d" "DateFromDay d \<le> DaysInMonth (YearFromDay d) (MonthFromDay d)"
proof -
  note w = DayWithinYear_range[of d]
  have "1 \<le> DateFromDay d \<and> DateFromDay d \<le> DaysInMonth (YearFromDay d) (MonthFromDay d)"
  proof (cases "InLeapYear (YearFromDay d)")
    case True
    then show ?thesis
      using w unfolding DateFromDay_def MonthFromDay_def monthStart_def DaysInMonth_def
        DaysInYear_def Let_def
      by (simp split: if_splits)
  next
    case False
    then show ?thesis
      using w unfolding DateFromDay_def MonthFromDay_def monthStart_def DaysInMonth_def
        DaysInYear_def Let_def
      by (simp split: if_splits)
  qed
  then show "1 \<le> DateFromDay d" "DateFromDay d \<le> DaysInMonth (YearFromDay d) (MonthFromDay d)"
    by simp_all
qed

lemma MakeDay_in_month:
  assumes "0 \<le> m" "m \<le> 11"
  shows "MakeDay y m k = DayFromYear y + monthStart y m + k - 1"
proof -
  have "m div 12 = 0" "m mod 12 = m" using assms by simp_all
  then show ?thesis by (simp add: MakeDay_def Let_def)
qed


lemma monthStart_next:
  assumes "0 \<le> m" "m \<le> 10"
  shows "monthStart y (m + 1) = monthStart y m + DaysInMonth y m"
proof -
  have "m = 0 \<or> m = 1 \<or> m = 2 \<or> m = 3 \<or> m = 4 \<or> m = 5 \<or> m = 6 \<or> m = 7 \<or> m = 8
    \<or> m = 9 \<or> m = 10" using assms by presburger
  then show ?thesis
    by (elim disjE) (simp_all add: monthStart_def DaysInMonth_def)
qed

lemma monthStart_last: "monthStart y 11 + DaysInMonth y 11 = DaysInYear y"
  by (simp add: monthStart_def DaysInMonth_def DaysInYear_def)

lemma monthStart_in_year:
  assumes "0 \<le> m" "m \<le> 11"
  shows "0 \<le> monthStart y m" "monthStart y m + DaysInMonth y m \<le> DaysInYear y"
  using month_cases[OF assms]
  by (elim disjE; simp add: monthStart_def DaysInMonth_def DaysInYear_def)+

lemma MonthFromDay_table:
  assumes "0 \<le> m" "m \<le> 11" "YearFromDay d = y"
    and "monthStart y m \<le> DayWithinYear d" "DayWithinYear d < monthStart y m + DaysInMonth y m"
  shows "MonthFromDay d = m"
proof (cases "InLeapYear y")
  case True
  show ?thesis
    using month_cases[OF assms(1,2)] assms(3-5) True
    by (elim disjE; simp add: MonthFromDay_def monthStart_def DaysInMonth_def)
next
  case False
  show ?thesis
    using month_cases[OF assms(1,2)] assms(3-5) False
    by (elim disjE; simp add: MonthFromDay_def monthStart_def DaysInMonth_def)
qed

lemma civil_of_MakeDay:
  assumes "0 \<le> m" "m \<le> 11" "1 \<le> k" "k \<le> DaysInMonth y m"
  shows "YearFromDay (MakeDay y m k) = y"
    and "MonthFromDay (MakeDay y m k) = m"
    and "DateFromDay (MakeDay y m k) = k"
proof -
  define d where "d = MakeDay y m k"
  have d: "d = DayFromYear y + (monthStart y m + k - 1)"
    using assms(1,2) by (simp add: d_def MakeDay_in_month)
  note ms = monthStart_in_year[OF assms(1,2), of y]
  have "DayFromYear y \<le> d" "d < DayFromYear (y + 1)"
    using ms assms(3,4) unfolding d DayFromYear_Suc by linarith+
  then have Y: "YearFromDay d = y" by (rule YearFromDay_unique)
  have W: "DayWithinYear d = monthStart y m + k - 1"
    unfolding DayWithinYear_def Y by (simp add: d)
  have M: "MonthFromDay d = m"
    by (rule MonthFromDay_table[OF assms(1,2) Y]) (use W assms(3,4) in simp_all)
  show "YearFromDay (MakeDay y m k) = y" using Y by (simp add: d_def)
  show "MonthFromDay (MakeDay y m k) = m" using M by (simp add: d_def)
  show "DateFromDay (MakeDay y m k) = k"
    unfolding d_def[symmetric] DateFromDay_def W Y M by simp
qed

lemma DaysInMonth_pos: "28 \<le> DaysInMonth y m"
  by (simp add: DaysInMonth_def)

lemma MakeDay_day_zero:
  assumes "0 \<le> m" "m \<le> 11"
  shows "MakeDay y (m + 1) 0 = MakeDay y m (DaysInMonth y m)"
proof (cases "m = 11")
  case True
  have "MakeDay y 12 0 = DayFromYear (y + 1) + monthStart (y + 1) 0 + 0 - 1"
    by (simp add: MakeDay_def Let_def)
  also have "\<dots> = DayFromYear y + DaysInYear y - 1"
    by (simp add: DayFromYear_Suc monthStart_def)
  also have "\<dots> = MakeDay y 11 (DaysInMonth y 11)"
    using monthStart_last[of y] by (simp add: MakeDay_in_month)
  finally show ?thesis using True by simp
next
  case False
  then have m: "0 \<le> m" "m \<le> 10" "0 \<le> m + 1" "m + 1 \<le> 11" using assms by simp_all
  show ?thesis
    using monthStart_next[OF m(1,2), of y]
    by (simp add: MakeDay_in_month[OF m(3,4)] MakeDay_in_month[OF assms])
qed

subsection \<open>Time values\<close>

lemma msPerDay_pos: "0 < msPerDay"
  by (simp add: msPerDay_def)

lemma Day_MakeDate:
  assumes "0 \<le> tm" "tm < msPerDay"
  shows "Day (MakeDate day tm) = day" and "TimeWithinDay (MakeDate day tm) = tm"
proof -
  have e: "MakeDate day tm = msPerDay * day + tm" by (simp add: MakeDate_def)
  show "Day (MakeDate day tm) = day"
    unfolding Day_def by (rule int_div_pos_eq[OF e assms])
  show "TimeWithinDay (MakeDate day tm) = tm"
    unfolding TimeWithinDay_def by (rule int_mod_pos_eq[OF e assms])
qed



lemma LocalTime_UTC: "LocalTime tza (UTC tza t) = t"
  by (simp add: LocalTime_def UTC_def)

lemma UTC_LocalTime: "UTC tza (LocalTime tza t) = t"
  by (simp add: LocalTime_def UTC_def)

lemma MakeTime_zero: "MakeTime 0 0 0 0 = 0"
  by (simp add: MakeTime_def)





lemma weekday_of_iso:
  fixes D :: int
  shows "(D + 4) mod 7 = (if (D + 3) mod 7 = 6 then 0 else (D + 3) mod 7 + 1)"
proof -
  define q where "q = (D + 3) div 7"
  define r where "r = (D + 3) mod 7"
  have e: "D + 3 = 7 * q + r" and r: "0 \<le> r" "r < 7" by (simp_all add: q_def r_def)
  show ?thesis
  proof (cases "r = 6")
    case True
    then have "D + 4 = 7 * (q + 1) + 0" using e by simp
    then have "(D + 4) mod 7 = 0" by (rule int_mod_pos_eq) simp_all
    then show ?thesis using True by (simp add: r_def)
  next
    case False
    then have r1: "0 \<le> r + 1" "r + 1 < 7" using r by linarith+
    have "D + 4 = 7 * q + (r + 1)" using e by simp
    then have "(D + 4) mod 7 = r + 1" using r1 by (rule int_mod_pos_eq)
    then show ?thesis using False by (simp add: r_def)
  qed
qed





lemma isoWeekday_range: "1 \<le> isoWeekday t" "isoWeekday t \<le> 7"
  by (simp_all add: isoWeekday_def)






lemma getMonth_range: "0 \<le> getMonth tza d" "getMonth tza d \<le> 11"
  by (simp_all add: getMonth_def MonthFromTime_def MonthFromDay_range)



subsection \<open>Claims on the period\<close>



lemma getDay_iso: "(if getDay tza d = 0 then 7 else getDay tza d) = isoWeekday (LocalTime tza d)"
proof -
  define r where "r = (Day (LocalTime tza d) + 3) mod 7"
  have "0 \<le> r" by (simp add: r_def)
  then have "(if (if r = 6 then 0 else r + 1) = 0 then 7 else (if r = 6 then 0 else r + 1)) = r + 1"
    by simp
  then show ?thesis
    unfolding getDay_def WeekDay_def isoWeekday_def weekday_of_iso[of "Day (LocalTime tza d)"]
      r_def .
qed

lemma daysLeft_weekly: "daysLeft tza now Weekly = 7 - isoWeekday (LocalTime tza now) + 1"
  using getDay_iso[of tza now] by (simp add: daysLeft_def Let_def)

lemma InLeapYear_1900:
  assumes "1 \<le> y" "y \<le> 99"
  shows "InLeapYear (1900 + y) = InLeapYear y"
proof -
  have a: "(1900 + y) mod 4 = y mod 4" using mod_shift[of "1900 + y" 4 475] by simp
  have b: "(1900 + y) mod 100 = y mod 100" using mod_shift[of "1900 + y" 100 19] by simp
  have c: "y mod 100 = y" using assms by simp
  show ?thesis unfolding InLeapYear_def a b c using assms by simp
qed

lemma getDate_lastDay:
  assumes "y \<noteq> 0" "0 \<le> m" "m \<le> 11"
  shows "getDate tza (newDate tza y (m + 1) 0) = DaysInMonth y m"
proof -
  define yr where "yr = (if 0 \<le> y \<and> y \<le> 99 then 1900 + y else y)"
  have leap: "InLeapYear yr = InLeapYear y"
    using InLeapYear_1900[of y] assms(1) by (simp add: yr_def)
  then have dim: "DaysInMonth yr m = DaysInMonth y m" by (simp add: DaysInMonth_def)
  have "LocalTime tza (newDate tza y (m + 1) 0) = MakeDate (MakeDay yr (m + 1) 0) 0"
    by (simp add: newDate_def yr_def LocalTime_UTC MakeTime_zero)
  then have "Day (LocalTime tza (newDate tza y (m + 1) 0)) = MakeDay yr m (DaysInMonth yr m)"
    using msPerDay_pos by (simp add: Day_MakeDate MakeDay_day_zero[OF assms(2,3)])
  moreover have "DateFromDay (MakeDay yr m (DaysInMonth yr m)) = DaysInMonth yr m"
    using DaysInMonth_pos[of yr m] by (intro civil_of_MakeDay(3)[OF assms(2,3)]) simp_all
  ultimately show ?thesis by (simp add: getDate_def DateFromTime_def dim)
qed

lemma daysLeft_monthly:
  assumes "getFullYear tza now \<noteq> 0"
  shows "daysLeft tza now Monthly
     = DaysInMonth (getFullYear tza now) (getMonth tza now) - getDate tza now + 1"
  using getDate_lastDay[OF assms getMonth_range, of tza tza now]
  by (simp add: daysLeft_def Let_def)

lemma getDate_le: "getDate tza d \<le> DaysInMonth (getFullYear tza d) (getMonth tza d)"
  using DateFromDay_range(2)[of "Day (LocalTime tza d)"]
  by (simp add: getDate_def getFullYear_def getMonth_def DateFromTime_def YearFromTime_def
      MonthFromTime_def)

lemma daysLeft_pos:
  assumes "getFullYear tza now \<noteq> 0"
  shows "1 \<le> daysLeft tza now type"
proof (cases type)
  case Weekly
  then show ?thesis
    using isoWeekday_range(2)[of "LocalTime tza now"] by (simp add: daysLeft_weekly)
next
  case Monthly
  then show ?thesis
    using getDate_le[of tza now] by (simp add: daysLeft_monthly[OF assms])
qed

text \<open>
  At a local date in February of the year 0 the constructor call
  \<^verbatim>\<open>new Date(0, 2, 0)\<close> is read as February 1900, which has 28 days where February
  of the year 0 has 29: on 29 February of the year 0 the days left are 0. No clock shows
  that year; the claim below is proved for every other instant.
\<close>

lemma daysLeft_year_zero:
  "getFullYear 0 (MakeDate (- 719469) 0) = 0 \<and> getMonth 0 (MakeDate (- 719469) 0) = 1
   \<and> getDate 0 (MakeDate (- 719469) 0) = 29 \<and> daysLeft 0 (MakeDate (- 719469) 0) Monthly = 0"
  by code_simp

text \<open>
  Claim C4. For every instant \<open>now\<close> (outside the local year 0) and both cadences the
  days left are an integer of at least 1, hence never 0: for the weekly goal they are
  \<open>7 - isoWeekday now + 1\<close> with Sunday as ISO weekday 7, for the monthly goal the last
  day of the month of \<open>now\<close> minus its day of the month plus 1.
\<close>

theorem daysLeft_at_least_one:
  assumes "getFullYear tza now \<noteq> 0"
  shows "1 \<le> daysLeft tza now type
    \<and> daysLeft tza now type \<noteq> 0
    \<and> daysLeft tza now Weekly = 7 - isoWeekday (LocalTime tza now) + 1
    \<and> daysLeft tza now Monthly
        = DaysInMonth (getFullYear tza now) (getMonth tza now) - getDate tza now + 1"
  using daysLeft_pos[OF assms, of type] daysLeft_weekly[of tza now] daysLeft_monthly[OF assms]
  by simp


theorem daysLeft_at_least_one_witness:
  "getFullYear 0 1794101405000 \<noteq> 0
   \<and> daysLeft 0 1794101405000 Weekly = 1
   \<and> daysLeft 0 1794101405000 Monthly = 23
   \<and> 1 \<le> daysLeft 0 1794101405000 Weekly"
proof -
  have h: "getFullYear 0 1794101405000 \<noteq> 0" by code_simp
  have w: "daysLeft 0 1794101405000 Weekly = 1" by code_simp
  have m: "daysLeft 0 1794101405000 Monthly = 23" by code_simp
  have p: "1 \<le> daysLeft 0 1794101405000 Weekly"
    using daysLeft_at_least_one [OF h, of Weekly] by blast
  show ?thesis using h w m p by blast
qed

section \<open>Properties of the goal projection\<close>

text \<open>
  Claim C2. For a positive goal amount and a non-negative period total the progress
  percentage is the finite number \<open>min 100 (pTotal / gAmount * 100)\<close>; it lies
  between 0 and 100, and it is exactly 100 as soon as the period total reaches the goal,
  however far it overshoots.
\<close>

theorem goalProgress_clamped:
  assumes "0 < gAmount" and "0 \<le> pTotal"
  shows "goalProgress pTotal gAmount = Fin (min 100 (pTotal / gAmount * 100))
    \<and> 0 \<le> min 100 (pTotal / gAmount * 100)
    \<and> min 100 (pTotal / gAmount * 100) \<le> 100
    \<and> (gAmount \<le> pTotal \<longrightarrow> goalProgress pTotal gAmount = Fin 100)"
proof -
  have eq: "goalProgress pTotal gAmount = Fin (min 100 (pTotal / gAmount * 100))"
    using assms by (simp add: goalProgress_def)
  have nonneg: "0 \<le> pTotal / gAmount * 100"
    using assms by simp
  have over: "100 \<le> pTotal / gAmount * 100" if "gAmount \<le> pTotal"
    using that assms by (simp add: le_divide_eq)
  show ?thesis
    using eq nonneg over by (auto simp: min_def)
qed

theorem goalProgress_clamped_witness:
  "(0::real) < 1000 \<and> (0::real) \<le> 250 \<and> goalProgress 250 1000 = Fin 25
   \<and> goalProgress 4000 1000 = Fin 100"
  using goalProgress_clamped [of 1000 250] goalProgress_clamped [of 1000 4000]
  by simp






section \<open>Properties of today's figures\<close>













section \<open>Properties of the transaction identifiers\<close>

lemma ids_addAll:
  "map tx_id (transactions (addAll d es)) = map tx_id (transactions d) @ map e_clockId es"
  unfolding addAll_def
  by (induction es arbitrary: d) (simp_all add: handleTransaction_def)

text \<open>
  Claim C10, as amended. The identifier of a transaction is the reading of the
  millisecond clock at its creation: after any run of entries the identifiers are those
  of the snapshot before, followed by the clock readings in the order of creation. They
  are distinct and strictly increasing in that order whenever the earlier identifiers
  followed by the readings are strictly increasing.
\<close>

theorem transaction_ids_follow_clock:
  "map tx_id (transactions (addAll d es)) = map tx_id (transactions d) @ map e_clockId es
   \<and> (sorted_wrt (<) (map tx_id (transactions d) @ map e_clockId es) \<longrightarrow>
        distinct (map tx_id (transactions (addAll d es)))
        \<and> sorted_wrt (<) (map tx_id (transactions (addAll d es))))"
  using strict_sorted_iff[of "map tx_id (transactions d) @ map e_clockId es"]
  by (simp add: ids_addAll)

theorem transaction_ids_follow_clock_witness:
  "sorted_wrt (<) [1794101405000, 1794101405001 :: int]
   \<and> map tx_id (transactions (addAll initialAppData
        [\<lparr>e_clockId = 1794101405000, e_clockDate = 1794101405000, e_type = Cash,
          e_category = Service, e_amount = 35\<rparr>,
         \<lparr>e_clockId = 1794101405001, e_clockDate = 1794101405001, e_type = Cash,
          e_category = Tip, e_amount = 5\<rparr>]))
      = [1794101405000, 1794101405001]
   \<and> distinct (map tx_id (transactions (addAll initialAppData
        [\<lparr>e_clockId = 1794101405000, e_clockDate = 1794101405000, e_type = Cash,
          e_category = Service, e_amount = 35\<rparr>,
         \<lparr>e_clockId = 1794101405001, e_clockDate = 1794101405001, e_type = Cash,
          e_category = Tip, e_amount = 5\<rparr>])))"
  using transaction_ids_follow_clock [of initialAppData
        "[\<lparr>e_clockId = 1794101405000, e_clockDate = 1794101405000, e_type = Cash,
          e_category = Service, e_amount = 35\<rparr>,
         \<lparr>e_clockId = 1794101405001, e_clockDate = 1794101405001, e_type = Cash,
          e_category = Tip, e_amount = 5\<rparr>]"]
  by (simp add: initialAppData_def)

text \<open>
  The claim as stated fails for two entries confirmed within the same millisecond: the
  two transactions carry the same identifier.
\<close>

theorem transaction_ids_counterexample:
  "\<not> distinct (map tx_id (transactions (addAll initialAppData
        [\<lparr>e_clockId = 1794101405000, e_clockDate = 1794101405000, e_type = Cash,
          e_category = Service, e_amount = 35\<rparr>,
         \<lparr>e_clockId = 1794101405000, e_clockDate = 1794101405000, e_type = Cash,
          e_category = Tip, e_amount = 5\<rparr>])))
   \<and> \<not> sorted_wrt (<) (map tx_id (transactions (addAll initialAppData
        [\<lparr>e_clockId = 1794101405000, e_clockDate = 1794101405000, e_type = Cash,
          e_category = Service, e_amount = 35\<rparr>,
         \<lparr>e_clockId = 1794101405000, e_clockDate = 1794101405000, e_type = Cash,
          e_category = Tip, e_amount = 5\<rparr>])))"
  by (simp add: ids_addAll initialAppData_def)

section \<open>Properties of the history\<close>



























section \<open>Properties of loading\<close>

lemma defaultSimulatorValue_null: "defaultSimulatorValue JNull = None"
  by (simp add: defaultSimulatorValue_def)

lemma defaultSimulatorValue_no_user:
  assumes "case map_of kvs ''user'' of None \<Rightarrow> True | Some u \<Rightarrow> \<not> truthy u"
  shows "defaultSimulatorValue (JObj kvs) = Some (JObj kvs)"
proof (cases "map_of kvs ''user''")
  case None
  then show ?thesis by (simp add: defaultSimulatorValue_def)
next
  case (Some u)
  then have "\<not> truthy u" using assms by simp
  then show ?thesis using Some by (simp add: defaultSimulatorValue_def)
qed

lemma defaultSimulatorValue_not_object:
  assumes "\<not> isObject j" "j \<noteq> JNull"
  shows "defaultSimulatorValue j = Some j"
  using assms by (cases j) (simp_all add: defaultSimulatorValue_def)

text \<open>
  Claim C9, as amended. Loading gives the empty snapshot when there is no window, when
  the record is missing or the empty string, when the parser rejects the record, and
  when the record parses to \<^verbatim>\<open>null\<close>; no error reaches the caller. A record that
  parses to another value is not checked for being a snapshot: an object without a user
  (or with a user that is \<^verbatim>\<open>null\<close>, false, 0 or the empty string) is returned as
  parsed, and so is a number, a string, a boolean or an array.
\<close>

theorem getInitialData_recovery:
  "(\<not> hasWindow \<longrightarrow> getInitialData hasWindow JSON_parse saved = emptyData)
   \<and> getInitialData True JSON_parse None = emptyData
   \<and> getInitialData True JSON_parse (Some []) = emptyData
   \<and> (s \<noteq> [] \<longrightarrow> JSON_parse s = None \<longrightarrow>
        getInitialData True JSON_parse (Some s) = emptyData)
   \<and> (s \<noteq> [] \<longrightarrow> JSON_parse s = Some JNull \<longrightarrow>
        getInitialData True JSON_parse (Some s) = emptyData)
   \<and> (s \<noteq> [] \<longrightarrow> JSON_parse s = Some (JObj kvs) \<longrightarrow>
        (case map_of kvs ''user'' of None \<Rightarrow> True | Some u \<Rightarrow> \<not> truthy u) \<longrightarrow>
        getInitialData True JSON_parse (Some s) = JObj kvs)
   \<and> (s \<noteq> [] \<longrightarrow> JSON_parse s = Some j \<longrightarrow> \<not> isObject j \<longrightarrow> j \<noteq> JNull \<longrightarrow>
        getInitialData True JSON_parse (Some s) = j)"
  using defaultSimulatorValue_no_user[of kvs] defaultSimulatorValue_not_object[of j]
  by (simp add: getInitialData_def defaultSimulatorValue_null)

theorem getInitialData_recovery_witness:
  "getInitialData True (\<lambda>s. if s = ''{}'' then Some (JObj []) else None) (Some ''{oops'')
     = emptyData
   \<and> getInitialData True (\<lambda>s. if s = ''null'' then Some JNull else None) (Some ''null'')
     = emptyData
   \<and> getInitialData True (\<lambda>s. if s = ''{}'' then Some (JObj []) else None) (Some ''{}'')
     = JObj []"
  using getInitialData_recovery
      [of True "\<lambda>s. if s = ''{}'' then Some (JObj []) else None" None "''{oops''" "[]" JNull]
    getInitialData_recovery
      [of True "\<lambda>s. if s = ''null'' then Some JNull else None" None "''null''" "[]" JNull]
    getInitialData_recovery
      [of True "\<lambda>s. if s = ''{}'' then Some (JObj []) else None" None "''{}''" "[]" JNull]
  by simp

text \<open>
  The claim as stated fails on the record \<^verbatim>\<open>{}\<close>: it is valid JSON and no
  well-formed snapshot (it has no transactions and no expenses), and loading returns it
  as it is, not the empty snapshot.
\<close>

theorem getInitialData_counterexample:
  "getInitialData True (\<lambda>s. if s = ''{}'' then Some (JObj []) else None) (Some ''{}'') = JObj []
   \<and> JObj [] \<noteq> emptyData
   \<and> \<not> wellFormedSnapshot (JObj [])"
  by (simp add: getInitialData_def defaultSimulatorValue_def emptyData_def wellFormedSnapshot_def)

end
